theory Spec2Isabelle
  imports Complex_Main "HOL-Library.Multiset" "HOL-Library.AList"
begin

section \<open>Values shared by the operations of \<open>s3ops.py\<close>\<close>

text \<open>
  Exceptions are values. \<open>ClientError d\<close> is an instance of
  \<open>botocore.exceptions.ClientError\<close> (the only class the module catches) whose
  \<open>str(e)\<close> is \<open>d\<close>; \<open>RuntimeError m c\<close> is the exception the module raises itself,
  with message \<open>m\<close> and \<open>__cause__\<close> \<open>c\<close> (\<open>raise ... from e\<close>);
  \<open>OtherException cls d\<close> is an exception of any class \<open>cls\<close> that is not a
  \<open>ClientError\<close>, with \<open>str(e) = d\<close>.
\<close>

datatype exn =
    ClientError string
  | OtherException string string
  | RuntimeError string exn

fun is_ClientError :: "exn \<Rightarrow> bool" where
  "is_ClientError (ClientError d) = True"
| "is_ClientError (OtherException cls d) = False"
| "is_ClientError (RuntimeError m c) = False"

fun str_exn :: "exn \<Rightarrow> string" where
  "str_exn (ClientError d) = d"
| "str_exn (OtherException cls d) = d"
| "str_exn (RuntimeError m c) = m"

text \<open>Truth value of an \<open>Optional[str]\<close>: \<open>None\<close> and the empty string are false.\<close>

fun truthy :: "string option \<Rightarrow> bool" where
  "truthy None = False"
| "truthy (Some s) = (s \<noteq> [])"

text \<open>\<open>x or None\<close> and \<open>x or ""\<close> on an \<open>Optional[str]\<close>.\<close>

definition or_None :: "string option \<Rightarrow> string option" where
  "or_None x = (if truthy x then x else None)"

definition or_empty :: "string option \<Rightarrow> string" where
  "or_empty x = (case x of None \<Rightarrow> [] | Some s \<Rightarrow> (if s \<noteq> [] then s else []))"

section \<open>The data model\<close>

record S3Summary =
  bucket :: string
  prefix :: "string option"
  object_count :: int
  total_bytes :: int

text \<open>
  One entry of a listing page's \<open>Contents\<close>, and one page of \<open>list_objects_v2\<close>:
  \<open>Contents\<close> is absent from a page that lists nothing.
\<close>

record s3_object =
  Key :: string
  Size :: int

record page =
  Contents :: "s3_object list option"

section \<open>The world outside the module\<close>

text \<open>
  The module talks to three collaborators: the process environment, the SDK
  (\<open>boto3\<close>) and the local file system (\<open>os.makedirs\<close>). The environment is a
  map. Every call into the SDK or the file system is recorded, in order, in \<open>calls\<close>;
  what a call returns or raises is given by a \<open>platform\<close>, whose answers may depend on
  the whole world at the moment of the call (its environment and the calls made so far).
\<close>

record session =
  profile_name :: "string option"
  region_name :: "string option"

record config =
  retries_max_attempts :: int
  retries_mode :: string
  connect_timeout :: int
  read_timeout :: int

record client =
  client_session :: session
  client_service :: string
  client_config :: config

datatype call =
    NewSession "string option" "string option"
  | NewClient session string config
  | Paginate client string string
  | MakeDirs string bool
  | DownloadFile client string string string
  | UploadFile client string string string "(string \<times> string) list option"

record world =
  environ :: "string \<rightharpoonup> string"
  calls :: "call list"

definition record_call :: "call \<Rightarrow> world \<Rightarrow> world" where
  "record_call c w = w\<lparr>calls := calls w @ [c]\<rparr>"

text \<open>
  The answers of the collaborators. \<open>None\<close> is a call that returns normally, \<open>Some e\<close>
  one that raises \<open>e\<close>. A listing is the sequence of page fetches of the paginator, each
  a page or the exception that fetch raises.
\<close>

record platform =
  session_raises :: "world \<Rightarrow> string option \<Rightarrow> string option \<Rightarrow> exn option"
  client_raises :: "world \<Rightarrow> session \<Rightarrow> string \<Rightarrow> config \<Rightarrow> exn option"
  paginate_pages :: "world \<Rightarrow> client \<Rightarrow> string \<Rightarrow> string \<Rightarrow> (exn + page) list"
  makedirs_raises :: "world \<Rightarrow> string \<Rightarrow> bool \<Rightarrow> exn option"
  download_file_raises :: "world \<Rightarrow> client \<Rightarrow> string \<Rightarrow> string \<Rightarrow> string \<Rightarrow> exn option"
  upload_file_raises ::
    "world \<Rightarrow> client \<Rightarrow> string \<Rightarrow> string \<Rightarrow> string \<Rightarrow> (string \<times> string) list option \<Rightarrow> exn option"

section \<open>Storage client adapter\<close>

text \<open>
  \<open>os.environ[k] = v\<close> (POSIX; a string is the byte string the environment holds).
  The assignment raises \<open>ValueError\<close>, and leaves the environment as it is, when the
  name or the value holds a NUL character, or the name is empty or holds \<open>=\<close>.
\<close>

definition environ_set :: "string \<Rightarrow> string \<Rightarrow> world \<Rightarrow> exn + world" where
  "environ_set k v w =
     (if CHR 0x00 \<in> set k \<or> CHR 0x00 \<in> set v
      then Inl (OtherException ''ValueError'' ''embedded null byte'')
      else if k = [] \<or> CHR ''='' \<in> set k
      then Inl (OtherException ''ValueError'' ''illegal environment variable name'')
      else Inr (w\<lparr>environ := (environ w)(k \<mapsto> v)\<rparr>))"

text \<open>
  \<open>_session\<close> (the leading underscore is not an Isabelle identifier):
  \<^verbatim>\<open>
  if aws_profile:
      os.environ["AWS_PROFILE"] = aws_profile
  return boto3.Session(profile_name=aws_profile or None, region_name=region or None)
  \<close>
\<close>

definition session :: "platform \<Rightarrow> string option \<Rightarrow> string option \<Rightarrow> world \<Rightarrow> world \<times> (exn + session)" where
  "session P aws_profile region w =
     (case (if truthy aws_profile then environ_set ''AWS_PROFILE'' (the aws_profile) w else Inr w) of
        Inl e \<Rightarrow> (w, Inl e)
      | Inr w1 \<Rightarrow>
          (let w2 = record_call (NewSession (or_None aws_profile) (or_None region)) w1
           in case session_raises P w1 (or_None aws_profile) (or_None region) of
                Some e \<Rightarrow> (w2, Inl e)
              | None \<Rightarrow> (w2, Inr \<lparr>profile_name = or_None aws_profile,
                                   region_name = or_None region\<rparr>)))"

definition cfg :: config where
  "cfg = \<lparr>retries_max_attempts = 10, retries_mode = ''standard'',
          connect_timeout = 5, read_timeout = 60\<rparr>"

definition s3_client :: "platform \<Rightarrow> string option \<Rightarrow> string option \<Rightarrow> world \<Rightarrow> world \<times> (exn + client)" where
  "s3_client P aws_profile region w =
     (case session P aws_profile region w of
        (w1, Inl e) \<Rightarrow> (w1, Inl e)
      | (w1, Inr sess) \<Rightarrow>
          (let w2 = record_call (NewClient sess ''s3'' cfg) w1
           in case client_raises P w1 sess ''s3'' cfg of
                Some e \<Rightarrow> (w2, Inl e)
              | None \<Rightarrow> (w2, Inr \<lparr>client_session = sess, client_service = ''s3'',
                                   client_config = cfg\<rparr>)))"

section \<open>Bucket operations\<close>

subsection \<open>\<open>summarize_bucket\<close>\<close>

text \<open>\<open>page.get("Contents", [])\<close>\<close>

definition page_contents :: "page \<Rightarrow> s3_object list" where
  "page_contents p = (case Contents p of None \<Rightarrow> [] | Some objs \<Rightarrow> objs)"

text \<open>
  The inner loop over the objects of one page, on the pair \<open>(total, count)\<close>
  (primed here, as both names are taken in HOL):
  \<open>count += 1; total += int(obj["Size"])\<close>.
\<close>

fun sum_objects :: "int \<times> int \<Rightarrow> s3_object list \<Rightarrow> int \<times> int" where
  "sum_objects (total', count') [] = (total', count')"
| "sum_objects (total', count') (obj # objs) = sum_objects (total' + Size obj, count' + 1) objs"

text \<open>The outer loop over the pages; a fetch that raises ends the whole call.\<close>

fun sum_pages :: "int \<times> int \<Rightarrow> (exn + page) list \<Rightarrow> exn + int \<times> int" where
  "sum_pages acc [] = Inr acc"
| "sum_pages acc (Inl e # rest) = Inl e"
| "sum_pages acc (Inr p # rest) = sum_pages (sum_objects acc (page_contents p)) rest"

definition summarize_bucket ::
  "platform \<Rightarrow> string \<Rightarrow> string option \<Rightarrow> string option \<Rightarrow> string option \<Rightarrow> world
     \<Rightarrow> world \<times> (exn + S3Summary)" where
  "summarize_bucket P bucket_arg prefix_arg aws_profile region w =
     (case s3_client P aws_profile region w of
        (w1, Inl e) \<Rightarrow> (w1, Inl e)
      | (w1, Inr s3) \<Rightarrow>
          (let w2 = record_call (Paginate s3 bucket_arg (or_empty prefix_arg)) w1
           in case sum_pages (0, 0) (paginate_pages P w1 s3 bucket_arg (or_empty prefix_arg)) of
                Inl e \<Rightarrow> (w2, Inl e)
              | Inr (total', count') \<Rightarrow>
                  (w2, Inr \<lparr>bucket = bucket_arg, prefix = prefix_arg,
                            object_count = count', total_bytes = total'\<rparr>)))"

subsection \<open>\<open>download_object\<close>\<close>

text \<open>
  \<open>os.path.dirname\<close> of \<open>posixpath\<close>: the part of the path up to its last slash,
  without the trailing slashes unless it consists of slashes only.
  \<^verbatim>\<open>
  i = p.rfind('/') + 1
  head = p[:i]
  if head and head != '/' * len(head):
      head = head.rstrip('/')
  return head
  \<close>
\<close>

definition rstrip_sep :: "string \<Rightarrow> string" where
  "rstrip_sep s = rev (dropWhile (\<lambda>c. c = CHR ''/'') (rev s))"

definition dirname :: "string \<Rightarrow> string" where
  "dirname p =
     (let head = rev (dropWhile (\<lambda>c. c \<noteq> CHR ''/'') (rev p))
      in if head \<noteq> [] \<and> head \<noteq> replicate (length head) (CHR ''/'')
         then rstrip_sep head else head)"

text \<open>\<open>os.path.dirname(dest_path) or "."\<close>\<close>

definition parent_dir :: "string \<Rightarrow> string" where
  "parent_dir dest_path = (if dirname dest_path \<noteq> [] then dirname dest_path else ''.'')"

definition download_object ::
  "platform \<Rightarrow> string \<Rightarrow> string \<Rightarrow> string \<Rightarrow> string option \<Rightarrow> string option \<Rightarrow> world
     \<Rightarrow> world \<times> (exn + string)" where
  "download_object P bucket_arg key dest_path aws_profile region w =
     (case s3_client P aws_profile region w of
        (w1, Inl e) \<Rightarrow> (w1, Inl e)
      | (w1, Inr s3) \<Rightarrow>
          (let w2 = record_call (MakeDirs (parent_dir dest_path) True) w1
           in case makedirs_raises P w1 (parent_dir dest_path) True of
                Some e \<Rightarrow> (w2, Inl e)
              | None \<Rightarrow>
                  (let w3 = record_call (DownloadFile s3 bucket_arg key dest_path) w2
                   in case download_file_raises P w2 s3 bucket_arg key dest_path of
                        Some e \<Rightarrow>
                          (if is_ClientError e
                           then (w3, Inl (RuntimeError
                                   (''Failed to download s3://'' @ bucket_arg @ ''/'' @ key
                                      @ '': '' @ str_exn e) e))
                           else (w3, Inl e))
                      | None \<Rightarrow> (w3, Inr dest_path))))"

subsection \<open>\<open>upload_file\<close>\<close>

text \<open>
  \<open>extra_args\<close> is a dict of strings, kept as an association list in insertion order;
  \<open>extra_args[k] = v\<close> is \<open>AList.update k v\<close>. An empty dict is false, and then the
  call is made without \<open>ExtraArgs\<close>.
\<close>

definition upload_file ::
  "platform \<Rightarrow> string \<Rightarrow> string \<Rightarrow> string \<Rightarrow> string option \<Rightarrow> string option \<Rightarrow> string option
     \<Rightarrow> string option \<Rightarrow> string option \<Rightarrow> world \<Rightarrow> world \<times> (exn + string \<times> string)" where
  "upload_file P src_path bucket_arg key content_type sse acl aws_profile region w =
     (case s3_client P aws_profile region w of
        (w1, Inl e) \<Rightarrow> (w1, Inl e)
      | (w1, Inr s3) \<Rightarrow>
          (let extra_args = [];
               extra_args = (if truthy content_type
                             then AList.update ''ContentType'' (the content_type) extra_args
                             else extra_args);
               extra_args = (if truthy sse
                             then AList.update ''ServerSideEncryption'' (the sse) extra_args
                             else extra_args);
               extra_args = (if truthy acl
                             then AList.update ''ACL'' (the acl) extra_args
                             else extra_args);
               ExtraArgs = (if extra_args \<noteq> [] then Some extra_args else None);
               w2 = record_call (UploadFile s3 src_path bucket_arg key ExtraArgs) w1
           in case upload_file_raises P w1 s3 src_path bucket_arg key ExtraArgs of
                Some e \<Rightarrow>
                  (if is_ClientError e
                   then (w2, Inl (RuntimeError
                           (''Failed to upload '' @ src_path @ '' to s3://'' @ bucket_arg @ ''/''
                              @ key @ '': '' @ str_exn e) e))
                   else (w2, Inl e))
              | None \<Rightarrow> (w2, Inr (bucket_arg, key))))"

section \<open>\<open>S3Summary.human_readable_size\<close>\<close>
















section \<open>Reference definitions\<close>

text \<open>All objects of a listing, page after page.\<close>

definition listed_objects :: "page list \<Rightarrow> s3_object list" where
  "listed_objects pages = concat (map page_contents pages)"




text \<open>
  The \<open>ExtraArgs\<close> of the put call as the specification words it: the fields that
  were supplied with a non-empty value, in the order content type, encryption, ACL, and
  no \<open>ExtraArgs\<close> at all when there is none.
\<close>

definition forwarded_options ::
  "string option \<Rightarrow> string option \<Rightarrow> string option \<Rightarrow> (string \<times> string) list option" where
  "forwarded_options content_type sse acl =
     (let extra =
        (case or_None content_type of None \<Rightarrow> [] | Some v \<Rightarrow> [(''ContentType'', v)])
        @ (case or_None sse of None \<Rightarrow> [] | Some v \<Rightarrow> [(''ServerSideEncryption'', v)])
        @ (case or_None acl of None \<Rightarrow> [] | Some v \<Rightarrow> [(''ACL'', v)])
      in if extra = [] then None else Some extra)"

text \<open>
  What the last call of a log, an upload, forwards under an \<open>ExtraArgs\<close> key
  (\<open>None\<close> when the key, or \<open>ExtraArgs\<close> itself, is absent from the call).
\<close>

definition forwarded :: "call list \<Rightarrow> string \<Rightarrow> string option" where
  "forwarded cs k =
     (case rev cs of
        UploadFile s3 src b ky (Some extra) # earlier \<Rightarrow> map_of extra k
      | _ \<Rightarrow> None)"

text \<open>
  A platform whose answers are fixed: sessions and clients are always built, and the
  listing, \<open>os.makedirs\<close>, the download and the upload answer as given. With the empty
  world it gives the concrete runs below.
\<close>

definition fixed_platform ::
  "(exn + page) list \<Rightarrow> exn option \<Rightarrow> exn option \<Rightarrow> exn option \<Rightarrow> platform" where
  "fixed_platform listing mk dl ul =
     \<lparr>session_raises = (\<lambda>w p r. None),
      client_raises = (\<lambda>w s n c. None),
      paginate_pages = (\<lambda>w c b p. listing),
      makedirs_raises = (\<lambda>w d ok. mk),
      download_file_raises = (\<lambda>w c b k d. dl),
      upload_file_raises = (\<lambda>w c s b k x. ul)\<rparr>"


text \<open>The empty world: no environment variable set, no call made.\<close>

definition world0 :: world where
  "world0 = \<lparr>environ = Map.empty, calls = []\<rparr>"

text \<open>The empty world after a session and a client were built without profile or region.\<close>

definition world1 :: world where
  "world1 = \<lparr>environ = Map.empty,
             calls = [NewSession None None,
                      NewClient \<lparr>profile_name = None, region_name = None\<rparr> ''s3'' cfg]\<rparr>"

text \<open>The client built without profile or region.\<close>

definition client0 :: client where
  "client0 = \<lparr>client_session = \<lparr>profile_name = None, region_name = None\<rparr>,
              client_service = ''s3'', client_config = cfg\<rparr>"

section \<open>Facts about the adapter and the loops\<close>

lemma sum_objects_eq:
  "sum_objects (t, c) objs = (t + sum_list (map Size objs), c + int (length objs))"
  by (induction objs arbitrary: t c) simp_all

lemma sum_pages_Inr:
  "sum_pages acc (map Inr pages) = Inr (sum_objects acc (listed_objects pages))"
proof (induction pages arbitrary: acc)
  case Nil
  then show ?case by (cases acc) (simp add: listed_objects_def)
next
  case (Cons p ps)
  obtain t c where acc: "acc = (t, c)" by (cases acc)
  show ?case
    using Cons.IH [of "sum_objects acc (page_contents p)"]
    by (simp add: acc listed_objects_def sum_objects_eq)
qed

lemma summarize_bucket_listing:
  assumes "s3_client P aws_profile region w = (w1, Inr s3)"
    and "paginate_pages P w1 s3 b (or_empty pfx) = map Inr pages"
  shows "snd (summarize_bucket P b pfx aws_profile region w) =
           Inr \<lparr>bucket = b, prefix = pfx,
                object_count = int (length (listed_objects pages)),
                total_bytes = sum_list (map Size (listed_objects pages))\<rparr>"
  using assms by (simp add: summarize_bucket_def sum_pages_Inr sum_objects_eq)

lemma mset_eq_sum_sizes:
  assumes "mset xs = mset ys"
  shows "sum_list (map Size xs) = sum_list (map Size ys)"
proof -
  have "sum_mset (image_mset Size (mset xs)) = sum_mset (image_mset Size (mset ys))"
    using assms by simp
  then show ?thesis by (simp only: mset_map [symmetric] sum_mset_sum_list)
qed

lemma s3_client_fixed:
  "s3_client (fixed_platform l mk dl ul) None None world0 = (world1, Inr client0)"
  by (simp add: s3_client_def session_def fixed_platform_def world0_def world1_def client0_def
        record_call_def or_None_def)



section \<open>\<open>summarize_bucket\<close>: counting and totalling\<close>

text \<open>
  C1. When the client is built and the service lists the pages \<open>pages\<close> (every fetch
  succeeds), \<open>summarize_bucket\<close> returns the summary whose \<open>object_count\<close> is the number
  of listed objects and whose \<open>total_bytes\<close> is the sum of their sizes. A second run,
  on any platform and world, whose listing holds the same objects, cut into pages in
  any other way and in any other order, returns the same summary.
\<close>

theorem summarize_bucket_count_total:
  assumes "s3_client P aws_profile region w = (w1, Inr s3)"
    and "paginate_pages P w1 s3 b (or_empty pfx) = map Inr pages"
    and "s3_client P' aws_profile' region' w' = (w1', Inr s3')"
    and "paginate_pages P' w1' s3' b (or_empty pfx) = map Inr pages'"
    and "mset (listed_objects pages') = mset (listed_objects pages)"
  shows "snd (summarize_bucket P b pfx aws_profile region w) =
           Inr \<lparr>bucket = b, prefix = pfx,
                object_count = int (length (listed_objects pages)),
                total_bytes = sum_list (map Size (listed_objects pages))\<rparr>
         \<and> snd (summarize_bucket P' b pfx aws_profile' region' w') =
             snd (summarize_bucket P b pfx aws_profile region w)"
proof -
  have len: "length (listed_objects pages') = length (listed_objects pages)"
    using assms(5) by (rule mset_eq_length)
  have tot: "sum_list (map Size (listed_objects pages')) = sum_list (map Size (listed_objects pages))"
    using assms(5) by (rule mset_eq_sum_sizes)
  show ?thesis
    by (simp add: summarize_bucket_listing [OF assms(1,2)] summarize_bucket_listing [OF assms(3,4)]
          len tot)
qed

theorem summarize_bucket_count_total_witness:
  "snd (summarize_bucket
          (fixed_platform
             [Inr \<lparr>Contents = Some [\<lparr>Key = ''a'', Size = 100\<rparr>, \<lparr>Key = ''b'', Size = 200\<rparr>]\<rparr>,
              Inr \<lparr>Contents = Some [\<lparr>Key = ''c'', Size = 300\<rparr>]\<rparr>] None None None)
          ''my-bucket'' (Some ''logs/'') None None world0)
     = Inr \<lparr>bucket = ''my-bucket'', prefix = Some ''logs/'', object_count = 3, total_bytes = 600\<rparr>
   \<and> snd (summarize_bucket
          (fixed_platform
             [Inr \<lparr>Contents = Some [\<lparr>Key = ''c'', Size = 300\<rparr>]\<rparr>,
              Inr \<lparr>Contents = None\<rparr>,
              Inr \<lparr>Contents = Some [\<lparr>Key = ''b'', Size = 200\<rparr>]\<rparr>,
              Inr \<lparr>Contents = Some [\<lparr>Key = ''a'', Size = 100\<rparr>]\<rparr>] None None None)
          ''my-bucket'' (Some ''logs/'') None None world0)
     = Inr \<lparr>bucket = ''my-bucket'', prefix = Some ''logs/'', object_count = 3, total_bytes = 600\<rparr>"
proof -
  let ?l1 = "[\<lparr>Contents = Some [\<lparr>Key = ''a'', Size = 100\<rparr>, \<lparr>Key = ''b'', Size = 200\<rparr>]\<rparr>,
              \<lparr>Contents = Some [\<lparr>Key = ''c'', Size = 300\<rparr>]\<rparr>]"
  let ?l2 = "[\<lparr>Contents = Some [\<lparr>Key = ''c'', Size = 300\<rparr>]\<rparr>,
              \<lparr>Contents = None\<rparr>,
              \<lparr>Contents = Some [\<lparr>Key = ''b'', Size = 200\<rparr>]\<rparr>,
              \<lparr>Contents = Some [\<lparr>Key = ''a'', Size = 100\<rparr>]\<rparr>]"
  let ?P1 = "fixed_platform (map Inr ?l1) None None None"
  let ?P2 = "fixed_platform (map Inr ?l2) None None None"
  have p1: "paginate_pages ?P1 (fst (s3_client ?P1 None None world0)) client0 ''my-bucket''
              (or_empty (Some ''logs/'')) = map Inr ?l1"
    by (simp add: fixed_platform_def)
  have p2: "paginate_pages ?P2 (fst (s3_client ?P2 None None world0)) client0 ''my-bucket''
              (or_empty (Some ''logs/'')) = map Inr ?l2"
    by (simp add: fixed_platform_def)
  have c1: "s3_client ?P1 None None world0 = (fst (s3_client ?P1 None None world0), Inr client0)"
    by (simp add: s3_client_fixed)
  have c2: "s3_client ?P2 None None world0 = (fst (s3_client ?P2 None None world0), Inr client0)"
    by (simp add: s3_client_fixed)
  have m: "mset (listed_objects ?l2) = mset (listed_objects ?l1)"
    by (simp add: listed_objects_def page_contents_def)
  show ?thesis
    using summarize_bucket_count_total [OF c1 p1 c2 p2 m]
    by (simp add: listed_objects_def page_contents_def)
qed

section \<open>Facts about the operations\<close>







lemma summarize_bucket_unfold:
  assumes "s3_client P aws_profile region w = (w1, Inr s3)"
  shows "summarize_bucket P b pfx aws_profile region w =
           (record_call (Paginate s3 b (or_empty pfx)) w1,
            map_sum id
              (\<lambda>(t, c). \<lparr>bucket = b, prefix = pfx, object_count = c, total_bytes = t\<rparr>)
              (sum_pages (0, 0) (paginate_pages P w1 s3 b (or_empty pfx))))"
  by (simp add: summarize_bucket_def assms Let_def split: sum.splits prod.splits)

lemma extra_args_chain:
  "(let extra_args = [];
        extra_args = (if truthy ct then AList.update ''ContentType'' (the ct) extra_args
                      else extra_args);
        extra_args = (if truthy sse then AList.update ''ServerSideEncryption'' (the sse) extra_args
                      else extra_args);
        extra_args = (if truthy acl then AList.update ''ACL'' (the acl) extra_args
                      else extra_args);
        ExtraArgs = (if extra_args \<noteq> [] then Some extra_args else None)
    in K ExtraArgs) = K (forwarded_options ct sse acl)"
  by (cases ct; cases sse; cases acl) (simp_all add: forwarded_options_def or_None_def Let_def)

lemma upload_file_unfold:
  assumes "s3_client P aws_profile region w = (w1, Inr s3)"
  shows "upload_file P src b k ct sse acl aws_profile region w =
           (record_call (UploadFile s3 src b k (forwarded_options ct sse acl)) w1,
            case upload_file_raises P w1 s3 src b k (forwarded_options ct sse acl) of
              None \<Rightarrow> Inr (b, k)
            | Some e \<Rightarrow>
                Inl (if is_ClientError e
                     then RuntimeError (''Failed to upload '' @ src @ '' to s3://'' @ b @ ''/'' @ k
                                          @ '': '' @ str_exn e) e
                     else e))"
proof -
  have "upload_file P src b k ct sse acl aws_profile region w =
          (let w2 = record_call (UploadFile s3 src b k (forwarded_options ct sse acl)) w1
           in case upload_file_raises P w1 s3 src b k (forwarded_options ct sse acl) of
                Some e \<Rightarrow>
                  (if is_ClientError e
                   then (w2, Inl (RuntimeError
                           (''Failed to upload '' @ src @ '' to s3://'' @ b @ ''/''
                              @ k @ '': '' @ str_exn e) e))
                   else (w2, Inl e))
              | None \<Rightarrow> (w2, Inr (b, k)))"
    unfolding upload_file_def assms prod.case sum.case by (rule extra_args_chain)
  also have "\<dots> = (record_call (UploadFile s3 src b k (forwarded_options ct sse acl)) w1,
            case upload_file_raises P w1 s3 src b k (forwarded_options ct sse acl) of
              None \<Rightarrow> Inr (b, k)
            | Some e \<Rightarrow>
                Inl (if is_ClientError e
                     then RuntimeError (''Failed to upload '' @ src @ '' to s3://'' @ b @ ''/'' @ k
                                          @ '': '' @ str_exn e) e
                     else e))"
    by (cases "upload_file_raises P w1 s3 src b k (forwarded_options ct sse acl)") simp_all
  finally show ?thesis .
qed


lemma download_object_unfold:
  assumes "s3_client P aws_profile region w = (w1, Inr s3)"
  shows "download_object P b k dest aws_profile region w =
           (case makedirs_raises P w1 (parent_dir dest) True of
              Some e \<Rightarrow> (record_call (MakeDirs (parent_dir dest) True) w1, Inl e)
            | None \<Rightarrow>
                (record_call (DownloadFile s3 b k dest) (record_call (MakeDirs (parent_dir dest) True) w1),
                 case download_file_raises P (record_call (MakeDirs (parent_dir dest) True) w1) s3 b k dest of
                   None \<Rightarrow> Inr dest
                 | Some e \<Rightarrow>
                     Inl (if is_ClientError e
                          then RuntimeError (''Failed to download s3://'' @ b @ ''/'' @ k @ '': '' @ str_exn e) e
                          else e)))"
  by (simp add: download_object_def assms Let_def split: option.splits)

lemma forwarded_snoc:
  "forwarded (cs @ [UploadFile s3 src b k x]) key = (case x of None \<Rightarrow> None | Some extra \<Rightarrow> map_of extra key)"
  by (simp add: forwarded_def split: option.splits)

lemma map_of_forwarded_options:
  "(case forwarded_options ct sse acl of None \<Rightarrow> None | Some extra \<Rightarrow> map_of extra key) =
     (if key = ''ContentType'' then or_None ct
      else if key = ''ServerSideEncryption'' then or_None sse
      else if key = ''ACL'' then or_None acl
      else None)"
  by (cases "or_None ct"; cases "or_None sse"; cases "or_None acl")
     (simp_all add: forwarded_options_def)

lemma dirname_example: "dirname ''a/b/c/file.txt'' = ''a/b/c''"
  by (simp add: dirname_def rstrip_sep_def)

lemma dirname_bare: "dirname ''out.bin'' = []"
  by (simp add: dirname_def rstrip_sep_def)

section \<open>\<open>summarize_bucket\<close>: nothing listed, and the empty prefix\<close>

text \<open>
  C6. When the client is built and the service lists pages that hold no object at all
  (no page, pages without \<open>Contents\<close>, pages with an empty \<open>Contents\<close>),
  \<open>summarize_bucket\<close> returns, as a result and not as an error, the summary with
  \<open>object_count = 0\<close> and \<open>total_bytes = 0\<close>.
\<close>

theorem summarize_bucket_empty:
  assumes "s3_client P aws_profile region w = (w1, Inr s3)"
    and "paginate_pages P w1 s3 b (or_empty pfx) = map Inr pages"
    and "listed_objects pages = []"
  shows "snd (summarize_bucket P b pfx aws_profile region w) =
           Inr \<lparr>bucket = b, prefix = pfx, object_count = 0, total_bytes = 0\<rparr>"
  using assms by (simp add: summarize_bucket_def sum_pages_Inr)

theorem summarize_bucket_empty_witness:
  "snd (summarize_bucket
          (fixed_platform [Inr \<lparr>Contents = None\<rparr>, Inr \<lparr>Contents = Some []\<rparr>] None None None)
          ''my-bucket'' (Some ''logs/'') None None world0)
     = Inr \<lparr>bucket = ''my-bucket'', prefix = Some ''logs/'', object_count = 0, total_bytes = 0\<rparr>"
proof -
  let ?l = "[\<lparr>Contents = None\<rparr>, \<lparr>Contents = Some []\<rparr>]"
  let ?P = "fixed_platform (map Inr ?l) None None None"
  have c: "s3_client ?P None None world0 = (world1, Inr client0)"
    by (rule s3_client_fixed)
  have p: "paginate_pages ?P world1 client0 ''my-bucket'' (or_empty (Some ''logs/'')) = map Inr ?l"
    by (simp add: fixed_platform_def)
  have z: "listed_objects ?l = []"
    by (simp add: listed_objects_def page_contents_def)
  show ?thesis
    using summarize_bucket_empty [OF c p z] by simp
qed

text \<open>
  C7. With the empty string as prefix \<open>summarize_bucket\<close> does to the world exactly
  what it does with no prefix, and it ends in the same error or in a summary with the
  same \<open>object_count\<close> and \<open>total_bytes\<close>. Once the client is built, either run
  makes exactly one further call, the listing of the bucket with \<open>Prefix\<close> the empty
  string (the whole bucket), and its result is the count and the total of the pages of
  that listing.
\<close>

theorem summarize_bucket_empty_prefix:
  "fst (summarize_bucket P b (Some '''') aws_profile region w) =
     fst (summarize_bucket P b None aws_profile region w)
   \<and> map_sum id (\<lambda>s. (object_count s, total_bytes s))
         (snd (summarize_bucket P b (Some '''') aws_profile region w)) =
     map_sum id (\<lambda>s. (object_count s, total_bytes s))
         (snd (summarize_bucket P b None aws_profile region w))
   \<and> (s3_client P aws_profile region w = (w1, Inr s3) \<longrightarrow>
        calls (fst (summarize_bucket P b (Some '''') aws_profile region w)) =
          calls w1 @ [Paginate s3 b '''']
        \<and> calls (fst (summarize_bucket P b None aws_profile region w)) =
          calls w1 @ [Paginate s3 b '''']
        \<and> snd (summarize_bucket P b (Some '''') aws_profile region w) =
          map_sum id
            (\<lambda>(t, c). \<lparr>bucket = b, prefix = Some '''', object_count = c, total_bytes = t\<rparr>)
            (sum_pages (0, 0) (paginate_pages P w1 s3 b ''''))
        \<and> snd (summarize_bucket P b None aws_profile region w) =
          map_sum id
            (\<lambda>(t, c). \<lparr>bucket = b, prefix = None, object_count = c, total_bytes = t\<rparr>)
            (sum_pages (0, 0) (paginate_pages P w1 s3 b '''')))"
proof -
  obtain w2 r where s: "s3_client P aws_profile region w = (w2, r)"
    by (cases "s3_client P aws_profile region w")
  have same: "fst (summarize_bucket P b (Some '''') aws_profile region w) =
     fst (summarize_bucket P b None aws_profile region w)
   \<and> map_sum id (\<lambda>s. (object_count s, total_bytes s))
         (snd (summarize_bucket P b (Some '''') aws_profile region w)) =
     map_sum id (\<lambda>s. (object_count s, total_bytes s))
         (snd (summarize_bucket P b None aws_profile region w))"
  proof (cases r)
    case (Inl e)
    then show ?thesis by (simp add: summarize_bucket_def s)
  next
    case (Inr c)
    then show ?thesis
      by (simp add: summarize_bucket_def s or_empty_def Let_def split: sum.splits prod.splits)
  qed
  have listing: "s3_client P aws_profile region w = (w1, Inr s3) \<longrightarrow>
        calls (fst (summarize_bucket P b (Some '''') aws_profile region w)) =
          calls w1 @ [Paginate s3 b '''']
        \<and> calls (fst (summarize_bucket P b None aws_profile region w)) =
          calls w1 @ [Paginate s3 b '''']
        \<and> snd (summarize_bucket P b (Some '''') aws_profile region w) =
          map_sum id
            (\<lambda>(t, c). \<lparr>bucket = b, prefix = Some '''', object_count = c, total_bytes = t\<rparr>)
            (sum_pages (0, 0) (paginate_pages P w1 s3 b ''''))
        \<and> snd (summarize_bucket P b None aws_profile region w) =
          map_sum id
            (\<lambda>(t, c). \<lparr>bucket = b, prefix = None, object_count = c, total_bytes = t\<rparr>)
            (sum_pages (0, 0) (paginate_pages P w1 s3 b ''''))"
  proof
    assume c: "s3_client P aws_profile region w = (w1, Inr s3)"
    show "calls (fst (summarize_bucket P b (Some '''') aws_profile region w)) =
          calls w1 @ [Paginate s3 b '''']
        \<and> calls (fst (summarize_bucket P b None aws_profile region w)) =
          calls w1 @ [Paginate s3 b '''']
        \<and> snd (summarize_bucket P b (Some '''') aws_profile region w) =
          map_sum id
            (\<lambda>(t, c). \<lparr>bucket = b, prefix = Some '''', object_count = c, total_bytes = t\<rparr>)
            (sum_pages (0, 0) (paginate_pages P w1 s3 b ''''))
        \<and> snd (summarize_bucket P b None aws_profile region w) =
          map_sum id
            (\<lambda>(t, c). \<lparr>bucket = b, prefix = None, object_count = c, total_bytes = t\<rparr>)
            (sum_pages (0, 0) (paginate_pages P w1 s3 b ''''))"
      by (simp add: summarize_bucket_unfold [OF c] or_empty_def record_call_def)
  qed
  from same listing show ?thesis by (intro conjI) simp_all
qed

theorem summarize_bucket_empty_prefix_witness:
  "calls (fst (summarize_bucket
                 (fixed_platform
                    [Inr \<lparr>Contents = Some [\<lparr>Key = ''a'', Size = 100\<rparr>, \<lparr>Key = ''b'', Size = 200\<rparr>]\<rparr>,
                     Inr \<lparr>Contents = Some [\<lparr>Key = ''c'', Size = 300\<rparr>]\<rparr>] None None None)
                 ''my-bucket'' (Some '''') None None world0))
     = calls world1 @ [Paginate client0 ''my-bucket'' '''']
   \<and> calls (fst (summarize_bucket
                 (fixed_platform
                    [Inr \<lparr>Contents = Some [\<lparr>Key = ''a'', Size = 100\<rparr>, \<lparr>Key = ''b'', Size = 200\<rparr>]\<rparr>,
                     Inr \<lparr>Contents = Some [\<lparr>Key = ''c'', Size = 300\<rparr>]\<rparr>] None None None)
                 ''my-bucket'' None None None world0))
     = calls world1 @ [Paginate client0 ''my-bucket'' '''']
   \<and> snd (summarize_bucket
                 (fixed_platform
                    [Inr \<lparr>Contents = Some [\<lparr>Key = ''a'', Size = 100\<rparr>, \<lparr>Key = ''b'', Size = 200\<rparr>]\<rparr>,
                     Inr \<lparr>Contents = Some [\<lparr>Key = ''c'', Size = 300\<rparr>]\<rparr>] None None None)
                 ''my-bucket'' (Some '''') None None world0)
     = Inr \<lparr>bucket = ''my-bucket'', prefix = Some '''', object_count = 3, total_bytes = 600\<rparr>
   \<and> snd (summarize_bucket
                 (fixed_platform
                    [Inr \<lparr>Contents = Some [\<lparr>Key = ''a'', Size = 100\<rparr>, \<lparr>Key = ''b'', Size = 200\<rparr>]\<rparr>,
                     Inr \<lparr>Contents = Some [\<lparr>Key = ''c'', Size = 300\<rparr>]\<rparr>] None None None)
                 ''my-bucket'' None None None world0)
     = Inr \<lparr>bucket = ''my-bucket'', prefix = None, object_count = 3, total_bytes = 600\<rparr>"
proof -
  let ?P = "fixed_platform
              [Inr \<lparr>Contents = Some [\<lparr>Key = ''a'', Size = 100\<rparr>, \<lparr>Key = ''b'', Size = 200\<rparr>]\<rparr>,
               Inr \<lparr>Contents = Some [\<lparr>Key = ''c'', Size = 300\<rparr>]\<rparr>] None None None"
  have c: "s3_client ?P None None world0 = (world1, Inr client0)"
    by (rule s3_client_fixed)
  show ?thesis
    using summarize_bucket_empty_prefix [where P = ?P and aws_profile = None and region = None
            and w = world0 and ?w1.0 = world1 and ?s3.0 = client0 and b = "''my-bucket''"] c
    by (simp add: fixed_platform_def page_contents_def)
qed

section \<open>The profile and the process environment\<close>




section \<open>\<open>upload_file\<close>: the options forwarded\<close>

text \<open>
  C3, as the code has it. Once the client is built, \<open>upload_file\<close> makes exactly one
  further call, the put call, and its \<open>ExtraArgs\<close> hold exactly the fields among content
  type, server-side encryption and ACL that were supplied with a non-empty value, each with
  the value supplied; a field that is unset or empty is absent, and \<open>ExtraArgs\<close> itself
  is absent when there is none to forward.
\<close>

theorem upload_file_forwards_nonempty:
  assumes "s3_client P aws_profile region w = (w1, Inr s3)"
  shows "calls (fst (upload_file P src b k ct sse acl aws_profile region w)) =
           calls w1 @ [UploadFile s3 src b k (forwarded_options ct sse acl)]
         \<and> (\<forall>key. forwarded (calls (fst (upload_file P src b k ct sse acl aws_profile region w))) key =
               (if key = ''ContentType'' then or_None ct
                else if key = ''ServerSideEncryption'' then or_None sse
                else if key = ''ACL'' then or_None acl
                else None))"
  by (simp add: upload_file_unfold [OF assms] record_call_def forwarded_snoc map_of_forwarded_options)

theorem upload_file_forwards_nonempty_witness:
  "calls (fst (upload_file (fixed_platform [] None None None) ''./report.csv'' ''my-bucket''
                 ''reports/report.csv'' (Some ''text/csv'') (Some '''') None None None world0))
     = calls world1 @ [UploadFile client0 ''./report.csv'' ''my-bucket'' ''reports/report.csv''
                         (Some [(''ContentType'', ''text/csv'')])]"
proof -
  have c: "s3_client (fixed_platform [] None None None) None None world0 = (world1, Inr client0)"
    by (rule s3_client_fixed)
  show ?thesis
    using upload_file_forwards_nonempty [OF c, where src = "''./report.csv''" and b = "''my-bucket''"
            and k = "''reports/report.csv''" and ct = "Some ''text/csv''" and sse = "Some ''''"
            and acl = None]
    by (simp add: forwarded_options_def or_None_def)
qed

text \<open>
  C3 as stated fails: a content type supplied explicitly as the empty string is not
  forwarded to the put call.
\<close>

theorem upload_file_empty_content_type_counterexample:
  "forwarded (calls (fst (upload_file (fixed_platform [] None None None) ''./report.csv'' ''my-bucket''
                 ''reports/report.csv'' (Some '''') None None None None world0))) ''ContentType''
     \<noteq> Some ''''"
  by (simp add: upload_file_unfold [OF s3_client_fixed] record_call_def forwarded_snoc
        forwarded_options_def or_None_def)

text \<open>
  C10. An option supplied as the empty string is treated exactly as an unset one: for
  each of the three fields the call with \<open>Some ''''\<close> is the call with \<open>None\<close>,
  in the world it leaves and in its result; and once the client is built, the one put
  call it makes carries the other two fields as they were supplied and nothing under the
  key of the empty field.
\<close>

theorem upload_file_empty_option:
  "upload_file P src b k (Some '''') sse acl aws_profile region w =
     upload_file P src b k None sse acl aws_profile region w
   \<and> upload_file P src b k ct (Some '''') acl aws_profile region w =
     upload_file P src b k ct None acl aws_profile region w
   \<and> upload_file P src b k ct sse (Some '''') aws_profile region w =
     upload_file P src b k ct sse None aws_profile region w
   \<and> (s3_client P aws_profile region w = (w1, Inr s3) \<longrightarrow>
        calls (fst (upload_file P src b k (Some '''') sse acl aws_profile region w)) =
          calls w1 @ [UploadFile s3 src b k (forwarded_options None sse acl)]
        \<and> forwarded (calls (fst (upload_file P src b k (Some '''') sse acl aws_profile region w)))
              ''ContentType'' = None
        \<and> calls (fst (upload_file P src b k ct (Some '''') acl aws_profile region w)) =
          calls w1 @ [UploadFile s3 src b k (forwarded_options ct None acl)]
        \<and> forwarded (calls (fst (upload_file P src b k ct (Some '''') acl aws_profile region w)))
              ''ServerSideEncryption'' = None
        \<and> calls (fst (upload_file P src b k ct sse (Some '''') aws_profile region w)) =
          calls w1 @ [UploadFile s3 src b k (forwarded_options ct sse None)]
        \<and> forwarded (calls (fst (upload_file P src b k ct sse (Some '''') aws_profile region w)))
              ''ACL'' = None)"
proof -
  have t: "truthy (Some '''') = truthy None" by simp
  have same: "upload_file P src b k (Some '''') sse acl aws_profile region w =
     upload_file P src b k None sse acl aws_profile region w
   \<and> upload_file P src b k ct (Some '''') acl aws_profile region w =
     upload_file P src b k ct None acl aws_profile region w
   \<and> upload_file P src b k ct sse (Some '''') aws_profile region w =
     upload_file P src b k ct sse None aws_profile region w"
    unfolding upload_file_def t by simp
  have o: "or_None (Some '''') = None" by (simp add: or_None_def)
  have f: "\<And>x y z. forwarded_options (Some '''') y z = forwarded_options None y z"
    "\<And>x y z. forwarded_options x (Some '''') z = forwarded_options x None z"
    "\<And>x y z. forwarded_options x y (Some '''') = forwarded_options x y None"
    by (simp_all add: forwarded_options_def or_None_def)
  have omitted: "s3_client P aws_profile region w = (w1, Inr s3) \<longrightarrow>
        calls (fst (upload_file P src b k (Some '''') sse acl aws_profile region w)) =
          calls w1 @ [UploadFile s3 src b k (forwarded_options None sse acl)]
        \<and> forwarded (calls (fst (upload_file P src b k (Some '''') sse acl aws_profile region w)))
              ''ContentType'' = None
        \<and> calls (fst (upload_file P src b k ct (Some '''') acl aws_profile region w)) =
          calls w1 @ [UploadFile s3 src b k (forwarded_options ct None acl)]
        \<and> forwarded (calls (fst (upload_file P src b k ct (Some '''') acl aws_profile region w)))
              ''ServerSideEncryption'' = None
        \<and> calls (fst (upload_file P src b k ct sse (Some '''') aws_profile region w)) =
          calls w1 @ [UploadFile s3 src b k (forwarded_options ct sse None)]
        \<and> forwarded (calls (fst (upload_file P src b k ct sse (Some '''') aws_profile region w)))
              ''ACL'' = None"
  proof
    assume c: "s3_client P aws_profile region w = (w1, Inr s3)"
    show "calls (fst (upload_file P src b k (Some '''') sse acl aws_profile region w)) =
          calls w1 @ [UploadFile s3 src b k (forwarded_options None sse acl)]
        \<and> forwarded (calls (fst (upload_file P src b k (Some '''') sse acl aws_profile region w)))
              ''ContentType'' = None
        \<and> calls (fst (upload_file P src b k ct (Some '''') acl aws_profile region w)) =
          calls w1 @ [UploadFile s3 src b k (forwarded_options ct None acl)]
        \<and> forwarded (calls (fst (upload_file P src b k ct (Some '''') acl aws_profile region w)))
              ''ServerSideEncryption'' = None
        \<and> calls (fst (upload_file P src b k ct sse (Some '''') aws_profile region w)) =
          calls w1 @ [UploadFile s3 src b k (forwarded_options ct sse None)]
        \<and> forwarded (calls (fst (upload_file P src b k ct sse (Some '''') aws_profile region w)))
              ''ACL'' = None"
      by (simp add: upload_file_unfold [OF c] record_call_def forwarded_snoc
            map_of_forwarded_options f o or_None_def)
  qed
  from conjunct1 [OF same] conjunct1 [OF conjunct2 [OF same]]
    conjunct2 [OF conjunct2 [OF same]] omitted
  show ?thesis by (intro conjI)
qed

theorem upload_file_empty_option_witness:
  "calls (fst (upload_file (fixed_platform [] None None None) ''./report.csv'' ''my-bucket''
                 ''reports/report.csv'' (Some '''') (Some ''AES256'') None None None world0))
     = calls world1 @ [UploadFile client0 ''./report.csv'' ''my-bucket'' ''reports/report.csv''
                         (Some [(''ServerSideEncryption'', ''AES256'')])]
   \<and> forwarded (calls (fst (upload_file (fixed_platform [] None None None) ''./report.csv''
                 ''my-bucket'' ''reports/report.csv'' (Some '''') (Some ''AES256'') None None None
                 world0))) ''ContentType'' = None"
proof -
  let ?P = "fixed_platform [] None None None"
  have c: "s3_client ?P None None world0 = (world1, Inr client0)"
    by (rule s3_client_fixed)
  note th = upload_file_empty_option [where P = ?P and w = world0
            and aws_profile = None and region = None and ?w1.0 = world1 and ?s3.0 = client0
            and src = "''./report.csv''" and b = "''my-bucket''" and k = "''reports/report.csv''"
            and ct = None and sse = "Some ''AES256''" and acl = None]
  from th c have a: "calls (fst (upload_file ?P ''./report.csv'' ''my-bucket''
                 ''reports/report.csv'' (Some '''') (Some ''AES256'') None None None world0))
     = calls world1 @ [UploadFile client0 ''./report.csv'' ''my-bucket'' ''reports/report.csv''
                         (forwarded_options None (Some ''AES256'') None)]"
    by blast
  from th c have n: "forwarded (calls (fst (upload_file ?P ''./report.csv''
                 ''my-bucket'' ''reports/report.csv'' (Some '''') (Some ''AES256'') None None None
                 world0))) ''ContentType'' = None"
    by blast
  have f: "forwarded_options None (Some ''AES256'') None = Some [(''ServerSideEncryption'', ''AES256'')]"
    by (simp add: forwarded_options_def or_None_def)
  from a [unfolded f] n show ?thesis by (intro conjI)
qed

section \<open>Errors of \<open>download_object\<close> and \<open>upload_file\<close>\<close>

text \<open>
  C4, as the code has it. When the client is built, the directory is made and the SDK's
  download raises an exception, \<open>download_object\<close> raises one \<open>RuntimeError\<close> whose
  message is \<open>Failed to download s3://bucket/key: cause\<close>, with the bucket, the key and
  the description of the original error, and whose cause is the original error, when the
  exception is a \<open>ClientError\<close> (an error response of the service: object not found,
  access denied); an exception of any other class comes out as it is.
\<close>

theorem download_object_wraps_client_error:
  assumes "s3_client P aws_profile region w = (w1, Inr s3)"
    and "makedirs_raises P w1 (parent_dir dest) True = None"
    and "download_file_raises P (record_call (MakeDirs (parent_dir dest) True) w1) s3 b k dest
           = Some e"
  shows "(is_ClientError e \<longrightarrow>
            snd (download_object P b k dest aws_profile region w) =
              Inl (RuntimeError (''Failed to download s3://'' @ b @ ''/'' @ k @ '': '' @ str_exn e) e))
         \<and> (\<not> is_ClientError e \<longrightarrow>
            snd (download_object P b k dest aws_profile region w) = Inl e)"
  by (simp add: download_object_unfold [OF assms(1)] assms(2,3))

theorem download_object_wraps_client_error_witness:
  "snd (download_object
          (fixed_platform [] None (Some (ClientError ''An error occurred (404): Not Found'')) None)
          ''my-bucket'' ''missing-key'' ''./out.bin'' None None world0)
     = Inl (RuntimeError ''Failed to download s3://my-bucket/missing-key: An error occurred (404): Not Found''
              (ClientError ''An error occurred (404): Not Found''))"
proof -
  let ?P = "fixed_platform [] None (Some (ClientError ''An error occurred (404): Not Found'')) None"
  have m: "makedirs_raises ?P world1 (parent_dir ''./out.bin'') True = None"
    by (simp add: fixed_platform_def)
  have d: "download_file_raises ?P (record_call (MakeDirs (parent_dir ''./out.bin'') True) world1)
             client0 ''my-bucket'' ''missing-key'' ''./out.bin''
           = Some (ClientError ''An error occurred (404): Not Found'')"
    by (simp add: fixed_platform_def)
  show ?thesis
    using download_object_wraps_client_error [OF s3_client_fixed m d] by simp
qed

text \<open>
  C4 as stated fails for a network failure: the SDK raises its connection and timeout
  errors in classes that are not \<open>ClientError\<close> (\<open>EndpointConnectionError\<close> is a
  \<open>BotoCoreError\<close>), the \<open>except\<close> clause does not match them, and the download ends
  in the SDK's exception itself, not in the download-failure \<open>RuntimeError\<close>.
\<close>

theorem download_network_failure_counterexample:
  "snd (download_object
          (fixed_platform [] None
             (Some (OtherException ''EndpointConnectionError''
                      ''Could not connect to the endpoint URL'')) None)
          ''my-bucket'' ''k'' ''out.bin'' None None world0)
     = Inl (OtherException ''EndpointConnectionError'' ''Could not connect to the endpoint URL'')"
  unfolding download_object_unfold [OF s3_client_fixed]
  by (simp add: fixed_platform_def)




section \<open>\<open>download_object\<close>: the directory, the transfer, the result\<close>

text \<open>
  C8. Once the client is built, \<open>download_object\<close> first calls
  \<open>os.makedirs\<close> with \<open>exist_ok=True\<close> on the directory part of the destination,
  or on \<open>.\<close> when the destination has none; only when that call returns does it call
  the SDK's \<open>download_file\<close>, with the destination exactly as given; a value it
  returns is the destination as given, and it returns one whenever both calls return.
\<close>

theorem download_object_steps:
  assumes "s3_client P aws_profile region w = (w1, Inr s3)"
  shows "calls (fst (download_object P b k dest aws_profile region w)) =
           calls w1 @ MakeDirs (parent_dir dest) True
             # (if makedirs_raises P w1 (parent_dir dest) True = None
                then [DownloadFile s3 b k dest] else [])
       \<and> parent_dir dest = (if dirname dest = [] then ''.'' else dirname dest)
       \<and> (\<forall>r. snd (download_object P b k dest aws_profile region w) = Inr r \<longrightarrow> r = dest)
       \<and> (makedirs_raises P w1 (parent_dir dest) True = None
            \<and> download_file_raises P (record_call (MakeDirs (parent_dir dest) True) w1) s3 b k dest = None
          \<longrightarrow> snd (download_object P b k dest aws_profile region w) = Inr dest)"
  by (auto simp add: download_object_unfold [OF assms] record_call_def parent_dir_def split: option.splits)

theorem download_object_steps_witness:
  "calls (fst (download_object (fixed_platform [] None None None) ''my-bucket'' ''k''
                 ''a/b/c/file.txt'' None None world0))
     = calls world1 @ [MakeDirs ''a/b/c'' True, DownloadFile client0 ''my-bucket'' ''k'' ''a/b/c/file.txt'']
   \<and> snd (download_object (fixed_platform [] None None None) ''my-bucket'' ''k''
                 ''a/b/c/file.txt'' None None world0) = Inr ''a/b/c/file.txt''
   \<and> calls (fst (download_object (fixed_platform [] None None None) ''my-bucket'' ''k''
                 ''out.bin'' None None world0))
     = calls world1 @ [MakeDirs ''.'' True, DownloadFile client0 ''my-bucket'' ''k'' ''out.bin'']"
proof -
  have c: "s3_client (fixed_platform [] None None None) None None world0 = (world1, Inr client0)"
    by (rule s3_client_fixed)
  note a = download_object_steps [OF c, where b = "''my-bucket''" and k = "''k''"
             and dest = "''a/b/c/file.txt''"]
  note b = download_object_steps [OF c, where b = "''my-bucket''" and k = "''k''"
             and dest = "''out.bin''"]
  have pa: "parent_dir ''a/b/c/file.txt'' = ''a/b/c''"
    by (simp add: parent_dir_def dirname_example)
  have pb: "parent_dir ''out.bin'' = ''.''"
    by (simp add: parent_dir_def dirname_bare)
  have ma: "makedirs_raises (fixed_platform [] None None None) world1 ''a/b/c'' True = None"
    by (simp add: fixed_platform_def)
  have mb: "makedirs_raises (fixed_platform [] None None None) world1 ''.'' True = None"
    by (simp add: fixed_platform_def)
  have da: "download_file_raises (fixed_platform [] None None None)
              (record_call (MakeDirs ''a/b/c'' True) world1) client0 ''my-bucket'' ''k'' ''a/b/c/file.txt'' = None"
    by (simp add: fixed_platform_def)
  show ?thesis
    using a b unfolding pa pb by (simp add: ma mb da)
qed

section \<open>\<open>human_readable_size\<close>: units and decimals\<close>


































end
